theory Spec2Isabelle
  imports Main "HOL-Library.Word"
begin

section \<open>JavaScript strings and values\<close>

text \<open>
  A JavaScript string is a sequence of 16-bit code units. String literals of the source
  are written \<open>str ''...''\<close>.
\<close>

type_synonym jstring = "16 word list"

definition str :: "string \<Rightarrow> jstring" where
  "str s = map of_char s"

text \<open>
  \<open>String.prototype.trim\<close> removes the code units of WhiteSpace and LineTerminator
  from both ends.
\<close>

definition is_ws :: "16 word \<Rightarrow> bool" where
  "is_ws c = (c \<in> set [0x0009, 0x000A, 0x000B, 0x000C, 0x000D, 0x0020, 0x00A0, 0x1680,
     0x2000, 0x2001, 0x2002, 0x2003, 0x2004, 0x2005, 0x2006, 0x2007, 0x2008, 0x2009, 0x200A,
     0x2028, 0x2029, 0x202F, 0x205F, 0x3000, 0xFEFF])"

definition trim :: "jstring \<Rightarrow> jstring" where
  "trim s = rev (dropWhile is_ws (rev (dropWhile is_ws s)))"

text \<open>
  \<open>String.prototype.startsWith\<close> with a plain search string.
\<close>

definition startsWith :: "jstring \<Rightarrow> jstring \<Rightarrow> bool" where
  "startsWith s p = (take (length p) s = p)"

text \<open>
  \<open>String.prototype.split\<close> with a separator of one code unit: the pieces between the
  separators, at least one piece.
\<close>

fun split :: "16 word \<Rightarrow> jstring \<Rightarrow> jstring list" where
  "split sep [] = [[]]"
| "split sep (c # cs) =
     (if c = sep then [] # split sep cs
      else (case split sep cs of p # ps \<Rightarrow> (c # p) # ps | [] \<Rightarrow> [[c]]))"

text \<open>
  \<open>String.prototype.toLowerCase\<close> on the ASCII letters. The Unicode case mapping of the
  other code units is not modelled (they are kept as they are); none of them lower-cases
  to a letter of the extension names \<open>getMimeType\<close> compares with.
\<close>

definition lower_unit :: "16 word \<Rightarrow> 16 word" where
  "lower_unit c = (if 0x41 \<le> c \<and> c \<le> 0x5A then c + 0x20 else c)"

definition toLowerCase :: "jstring \<Rightarrow> jstring" where
  "toLowerCase s = map lower_unit s"

text \<open>
  The values \<open>JSON.parse\<close> and the body parsers produce, with \<open>undefined\<close> for an
  absent field. An object lists its own properties, each name once: \<open>JObj\<close> is an object
  of the JSON parser, which inherits from \<open>Object.prototype\<close>; \<open>JBare\<close> is an object with
  no prototype, as the multipart parser builds for \<open>req.body\<close> and for fields named with
  brackets. A Number is kept by the two things this program observes of it: its
  ToBoolean (false for \<open>0\<close>, \<open>-0\<close> and \<open>NaN\<close>) and its ToString text.
\<close>

datatype js_number = Number (nonzero: bool) (numeral_text: jstring)

datatype js_value =
    JUndefined
  | JNull
  | JBool bool
  | JNum js_number
  | JStr jstring
  | JArr "js_value list"
  | JObj "(jstring \<times> js_value) list"
  | JBare "(jstring \<times> js_value) list"

datatype js_error =
    TypeError
  | SystemError jstring
  | MulterError jstring
  | Error jstring

text \<open>ToBoolean.\<close>

fun truthy :: "js_value \<Rightarrow> bool" where
  "truthy JUndefined = False"
| "truthy JNull = False"
| "truthy (JBool b) = b"
| "truthy (JNum n) = nonzero n"
| "truthy (JStr s) = (s \<noteq> [])"
| "truthy (JArr xs) = True"
| "truthy (JObj kvs) = True"
| "truthy (JBare kvs) = True"

text \<open>The operator \<open>a || b\<close>.\<close>

definition or_else :: "js_value \<Rightarrow> js_value \<Rightarrow> js_value" where
  "or_else a b = (if truthy a then a else b)"

text \<open>
  Property read \<open>v.k\<close>, for a property name \<open>k\<close> that no built-in prototype defines
  (\<open>history\<close>, \<open>message\<close>, \<open>role\<close>, \<open>text\<close>, \<open>file\<close> and \<open>name\<close> are the names the
  source reads): a TypeError on \<open>null\<close> and \<open>undefined\<close>, the own property of an object,
  and \<open>undefined\<close> otherwise.
\<close>

fun get_prop :: "js_value \<Rightarrow> jstring \<Rightarrow> js_error + js_value" where
  "get_prop JUndefined k = Inl TypeError"
| "get_prop JNull k = Inl TypeError"
| "get_prop (JObj kvs) k = (case map_of kvs k of Some v \<Rightarrow> Inr v | None \<Rightarrow> Inr JUndefined)"
| "get_prop (JBare kvs) k = (case map_of kvs k of Some v \<Rightarrow> Inr v | None \<Rightarrow> Inr JUndefined)"
| "get_prop v k = Inr JUndefined"

text \<open>
  ToString, as a template literal and \<open>String(...)\<close> apply it. An array is the join of
  its elements with commas, \<open>null\<close> and \<open>undefined\<close> elements giving the empty string.
  A parsed object has no callable property of its own: an object of the JSON parser
  with an own \<open>toString\<close> cannot be converted to a primitive (TypeError) and any other is
  \<open>[object Object]\<close>; an object with no prototype has no \<open>toString\<close> and no \<open>valueOf\<close> to
  call, so it cannot be converted either (TypeError).
\<close>

fun to_string :: "js_value \<Rightarrow> js_error + jstring"
  and join_elements :: "js_value list \<Rightarrow> js_error + jstring"
  where
  "to_string JUndefined = Inr (str ''undefined'')"
| "to_string JNull = Inr (str ''null'')"
| "to_string (JBool b) = Inr (if b then str ''true'' else str ''false'')"
| "to_string (JNum n) = Inr (numeral_text n)"
| "to_string (JStr s) = Inr s"
| "to_string (JArr xs) = join_elements xs"
| "to_string (JObj kvs) =
     (if map_of kvs (str ''toString'') \<noteq> None then Inl TypeError
      else Inr (str ''[object Object]''))"
| "to_string (JBare kvs) = Inl TypeError"
| "join_elements [] = Inr []"
| "join_elements (x # xs) =
     (case (if x = JNull \<or> x = JUndefined then Inr [] else to_string x) of
        Inl e \<Rightarrow> Inl e
      | Inr s \<Rightarrow>
          (if xs = [] then Inr s
           else (case join_elements xs of
                   Inl e \<Rightarrow> Inl e
                 | Inr t \<Rightarrow> Inr (s @ str '','' @ t))))"

section \<open>History normalizer\<close>

text \<open>
  An entry of \<open>chatHistory\<close>: \<open>{ role: r, parts: [{ text: t }, ...] }\<close>, each element of
  \<open>parts\<close> being the text of one \<open>{ text: ... }\<close> object.
\<close>

record content =
  role :: jstring
  parts :: "jstring list"

text \<open>\<open>String(msg.text || msg.message || '')\<close>\<close>

definition plain_text :: "js_value \<Rightarrow> js_error + jstring" where
  "plain_text msg =
     (case get_prop msg (str ''text'') of
        Inl e \<Rightarrow> Inl e
      | Inr t \<Rightarrow>
          (case get_prop msg (str ''message'') of
             Inl e \<Rightarrow> Inl e
           | Inr m \<Rightarrow> to_string (or_else (or_else t m) (JStr []))))"

text \<open>
  The template literal
  \<^verbatim>\<open>`${msg.text || ''} [File: ${msg.file.name || 'uploaded file'}]`.trim()\<close>,
  where \<open>f\<close> is the truthy \<open>msg.file\<close>.
\<close>

definition file_text :: "js_value \<Rightarrow> js_value \<Rightarrow> js_error + jstring" where
  "file_text msg f =
     (case get_prop msg (str ''text'') of
        Inl e \<Rightarrow> Inl e
      | Inr t \<Rightarrow>
          (case to_string (or_else t (JStr [])) of
             Inl e \<Rightarrow> Inl e
           | Inr s \<Rightarrow>
               (case get_prop f (str ''name'') of
                  Inl e \<Rightarrow> Inl e
                | Inr n \<Rightarrow>
                    (case to_string (or_else n (JStr (str ''uploaded file''))) of
                       Inl e \<Rightarrow> Inl e
                     | Inr m \<Rightarrow> Inr (trim (s @ str '' [File: '' @ m @ str '']''))))))"

text \<open>
  The callback of \<open>history.map\<close>: \<open>None\<close> is its \<open>return null\<close>, \<open>Inl\<close> an exception
  thrown while it runs.
\<close>

definition normalize_turn :: "js_value \<Rightarrow> js_error + content option" where
  "normalize_turn msg =
     (case get_prop msg (str ''role'') of
        Inl e \<Rightarrow> Inl e
      | Inr r \<Rightarrow>
          if r = JStr (str ''user'') then
            (case get_prop msg (str ''file'') of
               Inl e \<Rightarrow> Inl e
             | Inr f \<Rightarrow>
                 (case (if truthy f then file_text msg f else plain_text msg) of
                    Inl e \<Rightarrow> Inl e
                  | Inr text \<Rightarrow> Inr (Some \<lparr>role = str ''user'', parts = [text]\<rparr>)))
          else if r = JStr (str ''model'') then
            (case plain_text msg of
               Inl e \<Rightarrow> Inl e
             | Inr text \<Rightarrow> Inr (Some \<lparr>role = str ''model'', parts = [text]\<rparr>))
          else Inr None)"

text \<open>\<open>Array.prototype.map\<close> with a callback that may throw: the first exception ends it.\<close>

fun map_turns :: "js_value list \<Rightarrow> js_error + content option list" where
  "map_turns [] = Inr []"
| "map_turns (m # ms) =
     (case normalize_turn m of
        Inl e \<Rightarrow> Inl e
      | Inr c \<Rightarrow> (case map_turns ms of Inl e \<Rightarrow> Inl e | Inr cs \<Rightarrow> Inr (c # cs)))"

text \<open>The filter \<open>msg !== null && msg.parts[0].text.length > 0\<close>.\<close>

definition kept :: "content option \<Rightarrow> bool" where
  "kept c = (case c of
       None \<Rightarrow> False
     | Some e \<Rightarrow> (case parts e of t # _ \<Rightarrow> length t > 0 | [] \<Rightarrow> False))"

text \<open>
  \<open>chatHistory\<close> as the handler computes it from \<open>req.body.history\<close>: the empty list
  unless the field is a non-empty array.
\<close>

definition normalize :: "js_value \<Rightarrow> js_error + content list" where
  "normalize history =
     (case history of
        JArr (m # ms) \<Rightarrow>
          (case map_turns (m # ms) of
             Inl e \<Rightarrow> Inl e
           | Inr cs \<Rightarrow> Inr (map the (filter kept cs)))
      | _ \<Rightarrow> Inr [])"

section \<open>File staging\<close>

text \<open>
  The \<open>file\<close> object multer hands to the callbacks of the source, and \<open>req.file\<close>, which
  has the path of the stored file as well.
\<close>

record file_info =
  fieldname :: jstring
  originalname :: jstring
  mimetype :: jstring

record staged_file = file_info +
  path :: jstring

text \<open>The decimal numeral of a non-negative integer, as \<open>+\<close> with a string renders it.\<close>

fun decimal :: "nat \<Rightarrow> jstring" where
  "decimal n =
     (if n < 10 then [of_nat (48 + n)]
      else decimal (n div 10) @ [of_nat (48 + n mod 10)])"

text \<open>
  The \<open>filename\<close> callback of the disk storage; \<open>now\<close> is \<open>Date.now()\<close> and \<open>rnd\<close> is
  \<open>Math.round(Math.random() * 1E9)\<close>.
\<close>

definition filename :: "nat \<Rightarrow> nat \<Rightarrow> file_info \<Rightarrow> jstring" where
  "filename now rnd f =
     (let uniqueSuffix = decimal now @ str ''-'' @ decimal rnd
      in fieldname f @ str ''-'' @ uniqueSuffix @ str ''-'' @ originalname f)"

definition allowedTypes :: "jstring list" where
  "allowedTypes = [str ''audio/'', str ''application/pdf'']"

text \<open>The \<open>fileFilter\<close> callback: \<open>Inr True\<close> is \<open>cb(null, true)\<close>, \<open>Inl\<close> is \<open>cb(error)\<close>.\<close>

definition fileFilter :: "file_info \<Rightarrow> js_error + bool" where
  "fileFilter f =
     (let isValidType = list_ex (\<lambda>type. startsWith (mimetype f) type) allowedTypes
      in if isValidType then Inr True
         else Inl (Error (str ''File type not supported. Only audio and PDF files are allowed.'')))"

definition getMimeType :: "jstring \<Rightarrow> jstring" where
  "getMimeType filePath =
     (let ext = toLowerCase (last (split 0x2E filePath))
      in if ext = str ''pdf'' then str ''application/pdf''
         else if ext \<in> set [str ''mp3'', str ''wav'', str ''m4a'', str ''ogg'']
           then str ''audio/'' @ (if ext = str ''m4a'' then str ''mp4'' else ext)
         else str ''application/octet-stream'')"

section \<open>The world of a request\<close>

text \<open>
  One part of the message sent upstream: \<open>{ inlineData: { data, mimeType } }\<close> or
  \<open>{ text }\<close>.
\<close>

datatype part =
    InlineData (data: jstring) (mimeType: jstring)
  | Text js_value

text \<open>
  The JSON bodies the handler sends: \<open>{ message }\<close>, \<open>{ error }\<close> and
  \<open>{ error, details }\<close>, the details being the message of the caught error.
\<close>

datatype body =
    Message_body jstring
  | Error_body jstring
  | Failure_body jstring js_error

datatype event =
    StartChat "content list option"
  | SendMessage "part list"
  | Unlink jstring
  | Respond nat body
  | Next_error js_error

text \<open>
  The state a request runs in: the files of the upload directory, and the trace of what
  the request has done so far to the upstream client, to the file system and to the
  response.
\<close>

record world =
  files :: "jstring \<rightharpoonup> 8 word list"
  trace :: "event list"

text \<open>
  What the outside gives to one request: the outcome of \<open>model.startChat\<close> (an error it
  throws, if any), the outcome of \<open>chat.sendMessage\<close> followed by \<open>response.text()\<close>
  (the text, or the error thrown), and the base64 text of a buffer.
\<close>

record env =
  startChat :: "content list option \<Rightarrow> js_error option"
  sendMessage :: "content list option \<Rightarrow> part list \<Rightarrow> js_error + jstring"
  base64 :: "8 word list \<Rightarrow> jstring"

definition emit :: "event \<Rightarrow> world \<Rightarrow> world" where
  "emit e w = w\<lparr>trace := trace w @ [e]\<rparr>"

text \<open>\<open>fs.readFileSync(filePath).toString('base64')\<close>; a missing file throws.\<close>

definition fileToBase64 :: "env \<Rightarrow> world \<Rightarrow> jstring \<Rightarrow> js_error + jstring" where
  "fileToBase64 en w filePath =
     (case files w filePath of
        None \<Rightarrow> Inl (SystemError (str ''ENOENT''))
      | Some fileBuffer \<Rightarrow> Inr (base64 en fileBuffer))"

text \<open>
  \<open>if (file && fs.existsSync(file.path)) fs.unlinkSync(file.path)\<close>, the unlink of an
  existing file removing it.
\<close>

definition unlink_staged :: "staged_file option \<Rightarrow> world \<Rightarrow> world" where
  "unlink_staged fl w =
     (case fl of
        None \<Rightarrow> w
      | Some u \<Rightarrow>
          if files w (path u) \<noteq> None
          then emit (Unlink (path u)) (w\<lparr>files := (files w)(path u := None)\<rparr>)
          else w)"

text \<open>
  \<open>upload.single('file')\<close> on the file part of a multipart body, if there is one, as
  multer documents it: a part under another field name is refused, the \<open>fileFilter\<close>
  runs before the storage is asked to write, and a file over the \<open>fileSize\<close> limit
  leaves nothing behind. The stored path is the \<open>destination\<close> directory joined with the
  result of \<open>filename\<close>.
\<close>

definition upload_single ::
  "jstring \<Rightarrow> nat \<Rightarrow> nat \<Rightarrow> (file_info \<times> 8 word list) option \<Rightarrow> world
     \<Rightarrow> (js_error + staged_file option) \<times> world" where
  "upload_single uploadDir now rnd incoming w =
     (case incoming of
        None \<Rightarrow> (Inr None, w)
      | Some (f, bytes) \<Rightarrow>
          if fieldname f \<noteq> str ''file''
            then (Inl (MulterError (str ''LIMIT_UNEXPECTED_FILE'')), w)
          else (case fileFilter f of
             Inl e \<Rightarrow> (Inl e, w)
           | Inr _ \<Rightarrow>
               if length bytes > 50 * 1024 * 1024
                 then (Inl (MulterError (str ''LIMIT_FILE_SIZE'')), w)
               else
                 (let p = uploadDir @ str ''/'' @ filename now rnd f
                  in (Inr (Some (file_info.extend f \<lparr>path = p\<rparr>)),
                      w\<lparr>files := (files w)(p \<mapsto> bytes)\<rparr>))))"

section \<open>Chat request handler\<close>

text \<open>
  What the handler reads of the request: \<open>req.body\<close> as the body parsers have left it
  (\<open>undefined\<close> when none of them has parsed the request and the framework sets no
  default), and \<open>req.file\<close>.
\<close>

record request =
  body :: js_value
  req_file :: "staged_file option"

text \<open>The first step of the parts: the inline data of the file, if there is one.\<close>

definition file_parts :: "env \<Rightarrow> world \<Rightarrow> staged_file option \<Rightarrow> js_error + part list" where
  "file_parts en w fl =
     (case fl of
        None \<Rightarrow> Inr []
      | Some u \<Rightarrow>
          (case fileToBase64 en w (path u) of
             Inl e \<Rightarrow> Inl e
           | Inr fileData \<Rightarrow> Inr [InlineData fileData (getMimeType (path u))]))"

text \<open>
  The \<open>try\<close> block of the handler of \<open>POST /api/chat\<close>: \<open>Inr ()\<close> when it has sent its
  response, \<open>Inl\<close> the exception that leaves it. Its first statement,
  \<open>const { history, message } = req.body\<close>, throws a TypeError when \<open>req.body\<close> is
  \<open>undefined\<close> or \<open>null\<close>.
\<close>

definition chat_try :: "env \<Rightarrow> request \<Rightarrow> world \<Rightarrow> (js_error + unit) \<times> world" where
  "chat_try en req w =
     (case get_prop (body req) (str ''history'') of
        Inl e \<Rightarrow> (Inl e, w)
      | Inr history \<Rightarrow>
     (case get_prop (body req) (str ''message'') of
        Inl e \<Rightarrow> (Inl e, w)
      | Inr message \<Rightarrow>
     (if \<not> truthy message \<and> req_file req = None then
        (Inr (), emit (Respond 400 (Error_body (str ''Message or file is required''))) w)
      else
        (case normalize history of
           Inl e \<Rightarrow> (Inl e, w)
         | Inr chatHistory \<Rightarrow>
             (let chatConfig = (if length chatHistory > 0 then Some chatHistory else None);
                  w1 = emit (StartChat chatConfig) w
              in case startChat en chatConfig of
                   Some e \<Rightarrow> (Inl e, w1)
                 | None \<Rightarrow>
                     (case file_parts en w1 (req_file req) of
                        Inl e \<Rightarrow> (Inl e, w1)
                      | Inr parts1 \<Rightarrow>
                          (let parts2 =
                                 (if truthy message then parts1 @ [Text message]
                                  else if req_file req \<noteq> None then
                                    parts1 @ [Text (JStr (str
                                      ''Please analyze this file and provide insights.''))]
                                  else parts1);
                               w2 = emit (SendMessage parts2) w1
                           in case sendMessage en chatConfig parts2 of
                                Inl e \<Rightarrow> (Inl e, w2)
                              | Inr text \<Rightarrow>
                                  (Inr (), emit (Respond 200 (Message_body text))
                                             (unlink_staged (req_file req) w2)))))))))"

text \<open>The handler: the \<open>try\<close> block, and the \<open>catch\<close> block for what it throws.\<close>

definition chat_handler :: "env \<Rightarrow> request \<Rightarrow> world \<Rightarrow> world" where
  "chat_handler en req w =
     (case chat_try en req w of
        (Inr _, w') \<Rightarrow> w'
      | (Inl error, w') \<Rightarrow>
          emit (Respond 500 (Failure_body (str ''Failed to process chat message'') error))
            (unlink_staged (req_file req) w'))"


section \<open>Reading the normalizer\<close>

text \<open>
  What the callback of \<open>history.map\<close> leaves for one turn when it does not throw: the
  entry, or \<open>None\<close> for its \<open>null\<close>.
\<close>

definition turn_entry :: "js_value \<Rightarrow> content option" where
  "turn_entry m = (case normalize_turn m of Inr c \<Rightarrow> c | Inl e \<Rightarrow> None)"

text \<open>A plain turn \<open>{ role: r, text: t }\<close> of the client.\<close>

definition plain_turn :: "jstring \<times> jstring \<Rightarrow> js_value" where
  "plain_turn rt = JObj [(str ''role'', JStr (fst rt)), (str ''text'', JStr (snd rt))]"

text \<open>
  An entry of \<open>chatHistory\<close> as the value it is, \<open>{ role, parts: [{ text }] }\<close>, and the
  normalizer run on its own result.
\<close>

definition content_value :: "content \<Rightarrow> js_value" where
  "content_value c =
     JObj [(str ''role'', JStr (role c)),
           (str ''parts'', JArr (map (\<lambda>t. JObj [(str ''text'', JStr t)]) (parts c)))]"

definition normalize_twice :: "js_value \<Rightarrow> js_error + content list" where
  "normalize_twice h =
     (case normalize h of
        Inl e \<Rightarrow> Inl e
      | Inr cs \<Rightarrow> normalize (JArr (map content_value cs)))"

text \<open>An entry read back in the shape of a plain turn, \<open>{ role, text }\<close>.\<close>

definition as_plain_turn :: "content \<Rightarrow> js_value" where
  "as_plain_turn c =
     plain_turn (role c, (case parts c of t # _ \<Rightarrow> t | [] \<Rightarrow> []))"

section \<open>What the specification says of staging and of the parts\<close>

text \<open>
  The table of the specification from an extension, already in lower case, to the MIME
  type sent upstream.
\<close>

definition spec_mime :: "jstring \<Rightarrow> jstring" where
  "spec_mime ext =
     (if ext = str ''pdf'' then str ''application/pdf''
      else if ext = str ''mp3'' then str ''audio/mp3''
      else if ext = str ''wav'' then str ''audio/wav''
      else if ext = str ''ogg'' then str ''audio/ogg''
      else if ext = str ''m4a'' then str ''audio/mp4''
      else str ''application/octet-stream'')"

text \<open>
  The parts the specification describes for a request with an attachment: the inline
  data of the file with its MIME type, then the message, or the default prompt when there
  is no message.
\<close>

definition spec_parts :: "env \<Rightarrow> staged_file \<Rightarrow> 8 word list \<Rightarrow> js_value \<Rightarrow> part list" where
  "spec_parts en u bytes msg =
     [InlineData (base64 en bytes) (getMimeType (path u)),
      Text (if truthy msg then msg
            else JStr (str ''Please analyze this file and provide insights.''))]"

text \<open>The \<open>chatConfig.history\<close> of a normalized history: absent when it is empty.\<close>

definition config_of :: "content list \<Rightarrow> content list option" where
  "config_of h = (if length h > 0 then Some h else None)"

section \<open>Properties of strings\<close>

declare decimal.simps [simp del]

lemma not_ws_bracket: "\<not> is_ws 0x5D"
  by (simp add: is_ws_def)

lemma trim_snoc: "\<not> is_ws c \<Longrightarrow> trim (xs @ [c]) = dropWhile is_ws xs @ [c]"
  by (simp add: trim_def dropWhile_append)

lemma close_bracket: "str '']'' = [0x5D]"
  by (simp add: str_def)

lemma trim_file_label:
  "trim (s @ str '' [File: '' @ m @ str '']'')
     = dropWhile is_ws (s @ str '' [File: '' @ m) @ str '']''"
  using trim_snoc [OF not_ws_bracket, of "s @ str '' [File: '' @ m"]
  by (simp add: close_bracket)

lemma file_label_not_empty: "trim (s @ str '' [File: '' @ m @ str '']'') \<noteq> []"
  by (subst trim_file_label) (simp add: close_bracket)

section \<open>Validation of the request\<close>

lemma get_prop_other:
  "get_prop b k = Inr v \<Longrightarrow> \<exists>v'. get_prop b k' = Inr v'"
  by (cases b) (auto split: option.splits)

lemma chat_try_unparsed:
  "get_prop (body req) (str ''history'') = Inl e \<Longrightarrow> chat_try en req w = (Inl e, w)"
  by (simp add: chat_try_def)

lemma chat_try_missing_input:
  assumes "get_prop b (str ''message'') = Inr m" and "\<not> truthy m"
  shows "chat_try en \<lparr>body = b, req_file = None\<rparr> w
    = (Inr (), emit (Respond 400 (Error_body (str ''Message or file is required''))) w)"
proof -
  from assms(1) obtain h where "get_prop b (str ''history'') = Inr h"
    using get_prop_other by blast
  with assms show ?thesis by (simp add: chat_try_def)
qed




text \<open>
  C9. A message that is present but is the empty string, with no attachment, is answered
  with status 400 exactly as an absent message is.
\<close>

theorem empty_message_400:
  "get_prop b (str ''message'') = Inr (JStr [])
     \<and> get_prop b' (str ''message'') = Inr JUndefined \<longrightarrow>
   chat_handler en \<lparr>body = b, req_file = None\<rparr> w
     = w\<lparr>trace := trace w @ [Respond 400 (Error_body (str ''Message or file is required''))]\<rparr>
   \<and> chat_handler en \<lparr>body = b, req_file = None\<rparr> w
     = chat_handler en \<lparr>body = b', req_file = None\<rparr> w"
proof (intro impI)
  assume a: "get_prop b (str ''message'') = Inr (JStr [])
     \<and> get_prop b' (str ''message'') = Inr JUndefined"
  then have "chat_try en \<lparr>body = b, req_file = None\<rparr> w
      = (Inr (), emit (Respond 400 (Error_body (str ''Message or file is required''))) w)"
    by (intro chat_try_missing_input [where m = "JStr []"]) simp_all
  moreover from a have "chat_try en \<lparr>body = b', req_file = None\<rparr> w
      = (Inr (), emit (Respond 400 (Error_body (str ''Message or file is required''))) w)"
    by (intro chat_try_missing_input [where m = JUndefined]) simp_all
  ultimately show "chat_handler en \<lparr>body = b, req_file = None\<rparr> w
     = w\<lparr>trace := trace w @ [Respond 400 (Error_body (str ''Message or file is required''))]\<rparr>
   \<and> chat_handler en \<lparr>body = b, req_file = None\<rparr> w
     = chat_handler en \<lparr>body = b', req_file = None\<rparr> w"
    by (simp add: chat_handler_def emit_def)
qed

theorem empty_message_400_witness:
  "chat_handler
      \<lparr>startChat = (\<lambda>c. None), sendMessage = (\<lambda>c ps. Inr (str ''ok'')),
       base64 = (\<lambda>b. [])\<rparr>
      \<lparr>body = JBare [(str ''message'', JStr []), (str ''history'', JStr (str ''[]''))],
       req_file = None\<rparr>
      \<lparr>files = Map.empty, trace = []\<rparr>
     = \<lparr>files = Map.empty,
        trace = [Respond 400 (Error_body (str ''Message or file is required''))]\<rparr>"
  using empty_message_400
    [of "JBare [(str ''message'', JStr []), (str ''history'', JStr (str ''[]''))]"
        "JBare [(str ''history'', JStr (str ''[]''))]"
        "\<lparr>startChat = (\<lambda>c. None), sendMessage = (\<lambda>c ps. Inr (str ''ok'')),
          base64 = (\<lambda>b. [])\<rparr>"
        "\<lparr>files = Map.empty, trace = []\<rparr>"]
  by (simp add: str_def)

section \<open>Turns that carry an attachment\<close>

lemma file_text_strings:
  assumes "get_prop msg (str ''text'') = Inr (JStr t) \<or> (get_prop msg (str ''text'') = Inr JUndefined \<and> t = [])"
    and "get_prop f (str ''name'') = Inr (JStr n) \<or> (get_prop f (str ''name'') = Inr JUndefined \<and> n = [])"
  shows "file_text msg f = Inr (trim (t @ str '' [File: '' @ (if n = [] then str ''uploaded file'' else n) @ str '']''))"
  using assms by (auto simp add: file_text_def or_else_def)

lemma file_text_not_empty: "file_text msg f = Inr t \<Longrightarrow> t \<noteq> []"
  by (auto simp add: file_text_def file_label_not_empty split: sum.splits)

lemma user_file_turn:
  assumes "get_prop msg (str ''role'') = Inr (JStr (str ''user''))"
    and "get_prop msg (str ''file'') = Inr f" and "truthy f"
  shows "normalize_turn msg =
     (case file_text msg f of Inl e \<Rightarrow> Inl e
      | Inr text \<Rightarrow> Inr (Some \<lparr>role = str ''user'', parts = [text]\<rparr>))"
  using assms by (simp add: normalize_turn_def)

text \<open>
  C10. A turn with role \<open>user\<close> that carries an attachment never has an empty normalized
  text: whenever the callback returns for it, it returns an entry with a non-empty text,
  which the filter keeps. With an empty text and an empty name the text is
  \<open>[File: uploaded file]\<close>.
\<close>

theorem user_file_turn_kept:
  "(get_prop msg (str ''role'') = Inr (JStr (str ''user''))
      \<and> get_prop msg (str ''file'') = Inr f \<and> truthy f
      \<and> normalize_turn msg = Inr r
    \<longrightarrow> (\<exists>t. r = Some \<lparr>role = str ''user'', parts = [t]\<rparr> \<and> t \<noteq> []) \<and> kept r)
   \<and> normalize
        (JArr [JObj [(str ''role'', JStr (str ''user'')),
               (str ''text'', JStr []),
               (str ''file'', JObj [(str ''name'', JStr [])])]])
      = Inr [\<lparr>role = str ''user'', parts = [str ''[File: uploaded file]'']\<rparr>]"
proof (intro conjI impI)
  assume h: "get_prop msg (str ''role'') = Inr (JStr (str ''user''))
      \<and> get_prop msg (str ''file'') = Inr f \<and> truthy f
      \<and> normalize_turn msg = Inr r"
  then have "Inr r = (case file_text msg f of Inl e \<Rightarrow> Inl e
      | Inr text \<Rightarrow> Inr (Some \<lparr>role = str ''user'', parts = [text]\<rparr>))"
    using user_file_turn [of msg f] by simp
  then obtain t where t: "file_text msg f = Inr t" "r = Some \<lparr>role = str ''user'', parts = [t]\<rparr>"
    by (auto split: sum.splits)
  from t(1) have "t \<noteq> []" by (rule file_text_not_empty)
  with t(2) show "\<exists>t. r = Some \<lparr>role = str ''user'', parts = [t]\<rparr> \<and> t \<noteq> []" by blast
  from t(2) \<open>t \<noteq> []\<close> show "kept r" by (simp add: kept_def)
next
  show "normalize
        (JArr [JObj [(str ''role'', JStr (str ''user'')),
               (str ''text'', JStr []),
               (str ''file'', JObj [(str ''name'', JStr [])])]])
      = Inr [\<lparr>role = str ''user'', parts = [str ''[File: uploaded file]'']\<rparr>]"
    by (simp add: normalize_def normalize_turn_def file_text_def or_else_def kept_def trim_def is_ws_def str_def)
qed

theorem user_file_turn_kept_witness:
  "truthy (JObj []) \<and> kept (Some \<lparr>role = str ''user'', parts = [str ''[File: uploaded file]'']\<rparr>)"
  using user_file_turn_kept
    [of "JObj [(str ''role'', JStr (str ''user'')), (str ''file'', JObj [])]" "JObj []"
        "Some \<lparr>role = str ''user'', parts = [str ''[File: uploaded file]'']\<rparr>"]
  by (simp add: normalize_turn_def file_text_def or_else_def trim_def is_ws_def str_def)

section \<open>Which turns the normalizer keeps\<close>

lemma str_eq_Nil: "str s = [] \<longleftrightarrow> s = []"
  by (simp add: str_def)

lemma map_turns_entries:
  "(\<forall>m\<in>set ms. \<exists>c. normalize_turn m = Inr c) \<Longrightarrow> map_turns ms = Inr (map turn_entry ms)"
  by (induction ms) (auto simp add: turn_entry_def)

lemma normalize_array:
  assumes "\<forall>m\<in>set ms. \<exists>c. normalize_turn m = Inr c"
  shows "normalize (JArr ms) = Inr (map (the \<circ> turn_entry) (filter (kept \<circ> turn_entry) ms))"
proof (cases ms)
  case Nil
  then show ?thesis by (simp add: normalize_def)
next
  case (Cons m ms')
  from assms have "map_turns ms = Inr (map turn_entry ms)" by (rule map_turns_entries)
  with Cons show ?thesis
    by (simp add: normalize_def filter_map del: map_turns.simps)
qed

lemma other_role_dropped:
  assumes "get_prop m (str ''role'') \<noteq> Inr (JStr (str ''user''))"
    and "get_prop m (str ''role'') \<noteq> Inr (JStr (str ''model''))"
  shows "turn_entry m = None"
  using assms by (auto simp add: turn_entry_def normalize_turn_def split: sum.splits)

lemma normalize_turn_shape:
  "normalize_turn m = Inr (Some c) \<Longrightarrow>
     \<exists>t. c = \<lparr>role = role c, parts = [t]\<rparr> \<and> (role c = str ''user'' \<or> role c = str ''model'')"
  by (auto simp add: normalize_turn_def split: sum.splits if_splits)

lemma kept_iff:
  "kept (turn_entry m) \<longleftrightarrow>
     (\<exists>r t. normalize_turn m = Inr (Some \<lparr>role = r, parts = [t]\<rparr>)
        \<and> (r = str ''user'' \<or> r = str ''model'') \<and> t \<noteq> [])"
proof
  assume k: "kept (turn_entry m)"
  then obtain c where c: "normalize_turn m = Inr (Some c)"
    by (auto simp add: kept_def turn_entry_def split: sum.splits option.splits)
  then obtain t where t: "c = \<lparr>role = role c, parts = [t]\<rparr>"
      "role c = str ''user'' \<or> role c = str ''model''"
    using normalize_turn_shape by blast
  from k c have "kept (Some c)" by (simp add: turn_entry_def)
  with t(1) have "t \<noteq> []" by (cases c) (simp add: kept_def)
  with c t show "\<exists>r t. normalize_turn m = Inr (Some \<lparr>role = r, parts = [t]\<rparr>)
        \<and> (r = str ''user'' \<or> r = str ''model'') \<and> t \<noteq> []"
    by metis
next
  assume "\<exists>r t. normalize_turn m = Inr (Some \<lparr>role = r, parts = [t]\<rparr>)
        \<and> (r = str ''user'' \<or> r = str ''model'') \<and> t \<noteq> []"
  then show "kept (turn_entry m)"
    by (auto simp add: kept_def turn_entry_def)
qed

lemma turn_system: "normalize_turn (plain_turn (str ''system'', str ''be brief'')) = Inr None"
  by (simp add: normalize_turn_def plain_turn_def str_def)

lemma turn_user_hi: "normalize_turn (plain_turn (str ''user'', str ''hi''))
     = Inr (Some \<lparr>role = str ''user'', parts = [str ''hi'']\<rparr>)"
  by (simp add: normalize_turn_def plain_text_def or_else_def plain_turn_def str_def)

lemma turn_model_empty: "normalize_turn (plain_turn (str ''model'', []))
     = Inr (Some \<lparr>role = str ''model'', parts = [[]]\<rparr>)"
  by (simp add: normalize_turn_def plain_text_def or_else_def plain_turn_def str_def)

lemma turn_model_yo: "normalize_turn (plain_turn (str ''model'', str ''yo''))
     = Inr (Some \<lparr>role = str ''model'', parts = [str ''yo'']\<rparr>)"
  by (simp add: normalize_turn_def plain_text_def or_else_def plain_turn_def str_def)

text \<open>
  C7. When the callback throws for no turn of the history, the normalized history is the
  list of the entries of the turns that are kept, in the order of the history. A turn
  whose role is neither \<open>user\<close> nor \<open>model\<close> is not kept, and a turn is kept exactly when
  it has an entry, of role \<open>user\<close> or \<open>model\<close>, whose text is not empty.
\<close>

theorem history_filtered_in_order:
  "(\<forall>m\<in>set ms. \<exists>c. normalize_turn m = Inr c) \<longrightarrow>
     normalize (JArr ms) = Inr (map (the \<circ> turn_entry) (filter (kept \<circ> turn_entry) ms))
     \<and> (\<forall>m\<in>set ms. get_prop m (str ''role'') \<noteq> Inr (JStr (str ''user''))
            \<and> get_prop m (str ''role'') \<noteq> Inr (JStr (str ''model''))
          \<longrightarrow> \<not> kept (turn_entry m))
     \<and> (\<forall>m\<in>set ms. kept (turn_entry m) \<longleftrightarrow>
           (\<exists>r t. normalize_turn m = Inr (Some \<lparr>role = r, parts = [t]\<rparr>)
              \<and> (r = str ''user'' \<or> r = str ''model'') \<and> t \<noteq> []))"
proof (intro impI conjI ballI)
  assume "\<forall>m\<in>set ms. \<exists>c. normalize_turn m = Inr c"
  then show "normalize (JArr ms) = Inr (map (the \<circ> turn_entry) (filter (kept \<circ> turn_entry) ms))"
    by (rule normalize_array)
next
  fix m
  assume "get_prop m (str ''role'') \<noteq> Inr (JStr (str ''user''))
            \<and> get_prop m (str ''role'') \<noteq> Inr (JStr (str ''model''))"
  then have "turn_entry m = None" by (simp add: other_role_dropped)
  then show "\<not> kept (turn_entry m)" by (simp add: kept_def)
next
  fix m
  show "kept (turn_entry m) \<longleftrightarrow>
           (\<exists>r t. normalize_turn m = Inr (Some \<lparr>role = r, parts = [t]\<rparr>)
              \<and> (r = str ''user'' \<or> r = str ''model'') \<and> t \<noteq> [])"
    by (rule kept_iff)
qed

theorem history_filtered_in_order_witness:
  "normalize (JArr [plain_turn (str ''system'', str ''be brief''),
                    plain_turn (str ''user'', str ''hi''),
                    plain_turn (str ''model'', []),
                    plain_turn (str ''model'', str ''yo'')])
     = Inr [\<lparr>role = str ''user'', parts = [str ''hi'']\<rparr>,
            \<lparr>role = str ''model'', parts = [str ''yo'']\<rparr>]"
proof -
  let ?ms = "[plain_turn (str ''system'', str ''be brief''),
              plain_turn (str ''user'', str ''hi''),
              plain_turn (str ''model'', []),
              plain_turn (str ''model'', str ''yo'')]"
  have "\<forall>m\<in>set ?ms. \<exists>c. normalize_turn m = Inr c"
    by (simp add: turn_system turn_user_hi turn_model_empty turn_model_yo)
  with history_filtered_in_order [of ?ms]
  have "normalize (JArr ?ms) = Inr (map (the \<circ> turn_entry) (filter (kept \<circ> turn_entry) ?ms))"
    by blast
  then show ?thesis
    by (simp add: turn_system turn_user_hi turn_model_empty turn_model_yo turn_entry_def
        kept_def str_eq_Nil)
qed

section \<open>A turn with an attachment in a history\<close>

lemma normalize_around:
  assumes "normalize_turn msg = Inr (Some c)" and "kept (Some c)"
    and "\<forall>m\<in>set (before @ after). \<exists>c. normalize_turn m = Inr c"
  shows "normalize (JArr (before @ msg # after))
    = Inr (map (the \<circ> turn_entry) (filter (kept \<circ> turn_entry) before)
           @ c # map (the \<circ> turn_entry) (filter (kept \<circ> turn_entry) after))"
proof -
  from assms(1) have e: "turn_entry msg = Some c" by (simp add: turn_entry_def)
  from assms(1,3) have "\<forall>m\<in>set (before @ msg # after). \<exists>c. normalize_turn m = Inr c"
    by auto
  then have "normalize (JArr (before @ msg # after))
      = Inr (map (the \<circ> turn_entry) (filter (kept \<circ> turn_entry) (before @ msg # after)))"
    by (rule normalize_array)
  with e assms(2) show ?thesis by simp
qed

text \<open>
  C3. A turn with role \<open>user\<close> that carries an attachment (a truthy \<open>file\<close>), whose text
  and attachment name are strings or absent, is normalized to the text
  \<open><text> [File: <name or 'uploaded file'>]\<close>, trimmed: that is the entry the callback
  returns for it, and the entry the normalized history has at its place, between the
  entries of the turns before it and of the turns after it (the callback throwing for
  none of them). The entry holds that text and the role, and nothing else of the
  attachment. In particular the history of the one turn with text \<open>summarize\<close> and an
  attachment named \<open>report.pdf\<close> normalizes to the one text
  \<open>summarize [File: report.pdf]\<close>.
\<close>

theorem user_file_turn_text:
  "(get_prop msg (str ''role'') = Inr (JStr (str ''user''))
      \<and> get_prop msg (str ''file'') = Inr f \<and> truthy f
      \<and> (get_prop msg (str ''text'') = Inr (JStr t)
           \<or> (get_prop msg (str ''text'') = Inr JUndefined \<and> t = []))
      \<and> (get_prop f (str ''name'') = Inr (JStr n)
           \<or> (get_prop f (str ''name'') = Inr JUndefined \<and> n = []))
      \<and> (\<forall>m\<in>set (before @ after). \<exists>c. normalize_turn m = Inr c)
    \<longrightarrow> normalize_turn msg =
          Inr (Some \<lparr>role = str ''user'',
                     parts = [trim (t @ str '' [File: ''
                                @ (if n = [] then str ''uploaded file'' else n) @ str '']'')]\<rparr>)
        \<and> normalize (JArr (before @ msg # after)) =
          Inr (map (the \<circ> turn_entry) (filter (kept \<circ> turn_entry) before)
               @ \<lparr>role = str ''user'',
                   parts = [trim (t @ str '' [File: ''
                              @ (if n = [] then str ''uploaded file'' else n) @ str '']'')]\<rparr>
               # map (the \<circ> turn_entry) (filter (kept \<circ> turn_entry) after)))
   \<and> normalize
        (JArr [JObj [(str ''role'', JStr (str ''user'')),
               (str ''text'', JStr (str ''summarize'')),
               (str ''file'', JObj [(str ''name'', JStr (str ''report.pdf'')),
                                    (str ''type'', JStr (str ''application/pdf'')),
                                    (str ''size'', JNum (Number True (str ''1024'')))])]])
      = Inr [\<lparr>role = str ''user'', parts = [str ''summarize [File: report.pdf]'']\<rparr>]"
proof (intro conjI impI)
  assume h: "get_prop msg (str ''role'') = Inr (JStr (str ''user''))
      \<and> get_prop msg (str ''file'') = Inr f \<and> truthy f
      \<and> (get_prop msg (str ''text'') = Inr (JStr t)
           \<or> (get_prop msg (str ''text'') = Inr JUndefined \<and> t = []))
      \<and> (get_prop f (str ''name'') = Inr (JStr n)
           \<or> (get_prop f (str ''name'') = Inr JUndefined \<and> n = []))
      \<and> (\<forall>m\<in>set (before @ after). \<exists>c. normalize_turn m = Inr c)"
  let ?text = "trim (t @ str '' [File: ''
                 @ (if n = [] then str ''uploaded file'' else n) @ str '']'')"
  from h have "file_text msg f = Inr ?text"
    by (intro file_text_strings) simp_all
  with h show c: "normalize_turn msg = Inr (Some \<lparr>role = str ''user'', parts = [?text]\<rparr>)"
    by (simp add: user_file_turn)
  have "?text \<noteq> []" by (rule file_label_not_empty)
  then have k: "kept (Some \<lparr>role = str ''user'', parts = [?text]\<rparr>)"
    by (simp add: kept_def)
  from h have "\<forall>m\<in>set (before @ after). \<exists>c. normalize_turn m = Inr c" by blast
  with c k show "normalize (JArr (before @ msg # after)) =
          Inr (map (the \<circ> turn_entry) (filter (kept \<circ> turn_entry) before)
               @ \<lparr>role = str ''user'', parts = [?text]\<rparr>
               # map (the \<circ> turn_entry) (filter (kept \<circ> turn_entry) after))"
    by (rule normalize_around)
next
  show "normalize
        (JArr [JObj [(str ''role'', JStr (str ''user'')),
               (str ''text'', JStr (str ''summarize'')),
               (str ''file'', JObj [(str ''name'', JStr (str ''report.pdf'')),
                                    (str ''type'', JStr (str ''application/pdf'')),
                                    (str ''size'', JNum (Number True (str ''1024'')))])]])
      = Inr [\<lparr>role = str ''user'', parts = [str ''summarize [File: report.pdf]'']\<rparr>]"
    by (simp add: normalize_def normalize_turn_def file_text_def or_else_def kept_def trim_def
        is_ws_def str_def)
qed

theorem user_file_turn_text_witness:
  "normalize
     (JArr [plain_turn (str ''user'', str ''hi''),
            JObj [(str ''role'', JStr (str ''user'')),
                  (str ''text'', JStr (str '' look'')),
                  (str ''file'', JObj [(str ''size'', JNum (Number True (str ''7'')))])],
            plain_turn (str ''system'', str ''be brief''),
            plain_turn (str ''model'', str ''yo'')])
     = Inr [\<lparr>role = str ''user'', parts = [str ''hi'']\<rparr>,
            \<lparr>role = str ''user'', parts = [str ''look [File: uploaded file]'']\<rparr>,
            \<lparr>role = str ''model'', parts = [str ''yo'']\<rparr>]"
proof -
  let ?f = "JObj [(str ''size'', JNum (Number True (str ''7'')))]"
  let ?msg = "JObj [(str ''role'', JStr (str ''user'')),
                  (str ''text'', JStr (str '' look'')), (str ''file'', ?f)]"
  let ?before = "[plain_turn (str ''user'', str ''hi'')]"
  let ?after = "[plain_turn (str ''system'', str ''be brief''),
                 plain_turn (str ''model'', str ''yo'')]"
  have pre: "get_prop ?msg (str ''role'') = Inr (JStr (str ''user''))
      \<and> get_prop ?msg (str ''file'') = Inr ?f \<and> truthy ?f
      \<and> (get_prop ?msg (str ''text'') = Inr (JStr (str '' look''))
           \<or> (get_prop ?msg (str ''text'') = Inr JUndefined \<and> str '' look'' = []))
      \<and> (get_prop ?f (str ''name'') = Inr (JStr [])
           \<or> (get_prop ?f (str ''name'') = Inr JUndefined \<and> [] = ([] :: jstring)))"
    by (simp add: str_def)
  have oth: "\<forall>m\<in>set (?before @ ?after). \<exists>c. normalize_turn m = Inr c"
    by (simp add: turn_system turn_user_hi turn_model_yo)
  have tr: "trim (str '' look'' @ str '' [File: '' @ str ''uploaded file'' @ str '']'')
      = str ''look [File: uploaded file]''"
    by (simp add: trim_def is_ws_def str_def)
  from user_file_turn_text [of ?msg ?f "str '' look''" "[]" ?before ?after] pre oth
  have "normalize (JArr (?before @ ?msg # ?after)) =
          Inr (map (the \<circ> turn_entry) (filter (kept \<circ> turn_entry) ?before)
               @ \<lparr>role = str ''user'',
                   parts = [trim (str '' look'' @ str '' [File: ''
                              @ (if [] = ([] :: jstring) then str ''uploaded file'' else [])
                              @ str '']'')]\<rparr>
               # map (the \<circ> turn_entry) (filter (kept \<circ> turn_entry) ?after))"
    by blast
  then show ?thesis
    by (simp add: tr turn_system turn_user_hi turn_model_yo turn_entry_def kept_def str_eq_Nil)
qed

section \<open>Normalizing plain turns\<close>

lemma normalize_turn_plain:
  assumes "r = str ''user'' \<or> r = str ''model''" and "t \<noteq> []"
  shows "normalize_turn (plain_turn (r, t)) = Inr (Some \<lparr>role = r, parts = [t]\<rparr>)"
  using assms
  by (auto simp add: normalize_turn_def plain_text_def or_else_def plain_turn_def str_def)

lemma normalize_turn_content:
  assumes "role c = str ''user'' \<or> role c = str ''model''"
  shows "normalize_turn (content_value c) = Inr (Some \<lparr>role = role c, parts = [[]]\<rparr>)"
  using assms
  by (auto simp add: normalize_turn_def plain_text_def or_else_def content_value_def str_def)

lemma normalize_plain:
  assumes "\<forall>rt\<in>set ts. (fst rt = str ''user'' \<or> fst rt = str ''model'') \<and> snd rt \<noteq> []"
  shows "normalize (JArr (map plain_turn ts))
           = Inr (map (\<lambda>rt. \<lparr>role = fst rt, parts = [snd rt]\<rparr>) ts)"
proof -
  have e: "turn_entry (plain_turn rt) = Some \<lparr>role = fst rt, parts = [snd rt]\<rparr>"
    if "rt \<in> set ts" for rt
    using that assms normalize_turn_plain [of "fst rt" "snd rt"] by (simp add: turn_entry_def)
  have "\<forall>m\<in>set (map plain_turn ts). \<exists>c. normalize_turn m = Inr c"
  proof
    fix m
    assume "m \<in> set (map plain_turn ts)"
    then obtain rt where "rt \<in> set ts" and "m = plain_turn rt" by auto
    with assms normalize_turn_plain [of "fst rt" "snd rt"]
    show "\<exists>c. normalize_turn m = Inr c" by simp
  qed
  then have "normalize (JArr (map plain_turn ts))
      = Inr (map (the \<circ> turn_entry) (filter (kept \<circ> turn_entry) (map plain_turn ts)))"
    by (rule normalize_array)
  moreover have "filter (kept \<circ> turn_entry) (map plain_turn ts) = map plain_turn ts"
    using assms e by (auto simp add: filter_id_conv kept_def)
  moreover have "map (the \<circ> turn_entry) (map plain_turn ts)
      = map (\<lambda>rt. \<lparr>role = fst rt, parts = [snd rt]\<rparr>) ts"
    using e by simp
  ultimately show ?thesis by simp
qed

lemma normalize_contents:
  assumes "\<forall>c\<in>set cs. role c = str ''user'' \<or> role c = str ''model''"
  shows "normalize (JArr (map content_value cs)) = Inr []"
proof -
  have e: "turn_entry (content_value c) = Some \<lparr>role = role c, parts = [[]]\<rparr>"
    if "c \<in> set cs" for c
    using that assms normalize_turn_content [of c] by (simp add: turn_entry_def)
  have "\<forall>m\<in>set (map content_value cs). \<exists>c. normalize_turn m = Inr c"
    using assms normalize_turn_content by auto
  then have "normalize (JArr (map content_value cs))
      = Inr (map (the \<circ> turn_entry) (filter (kept \<circ> turn_entry) (map content_value cs)))"
    by (rule normalize_array)
  moreover have "filter (kept \<circ> turn_entry) (map content_value cs) = []"
    using e by (auto simp add: filter_empty_conv kept_def)
  ultimately show ?thesis by simp
qed

text \<open>
  C8, as the code has it. The normalizer changes the shape of a turn: it reads
  \<open>{ role, text }\<close> and writes \<open>{ role, parts: [{ text }] }\<close>. On a history of plain
  turns with roles \<open>user\<close> or \<open>model\<close> and non-empty texts it keeps every turn, in order,
  with its role and its text; read back in the shape of plain turns, its result
  normalizes to itself. Run on its own result as it is, it finds no \<open>text\<close> field and
  gives the empty history.
\<close>

theorem normalize_plain_turns:
  "(\<forall>rt\<in>set ts. (fst rt = str ''user'' \<or> fst rt = str ''model'') \<and> snd rt \<noteq> []) \<longrightarrow>
     normalize (JArr (map plain_turn ts))
       = Inr (map (\<lambda>rt. \<lparr>role = fst rt, parts = [snd rt]\<rparr>) ts)
     \<and> normalize (JArr (map as_plain_turn (map (\<lambda>rt. \<lparr>role = fst rt, parts = [snd rt]\<rparr>) ts)))
       = Inr (map (\<lambda>rt. \<lparr>role = fst rt, parts = [snd rt]\<rparr>) ts)
     \<and> normalize_twice (JArr (map plain_turn ts)) = Inr []"
proof (intro impI conjI)
  assume a: "\<forall>rt\<in>set ts. (fst rt = str ''user'' \<or> fst rt = str ''model'') \<and> snd rt \<noteq> []"
  then show n: "normalize (JArr (map plain_turn ts))
       = Inr (map (\<lambda>rt. \<lparr>role = fst rt, parts = [snd rt]\<rparr>) ts)"
    by (rule normalize_plain)
  have m: "map as_plain_turn (map (\<lambda>rt. \<lparr>role = fst rt, parts = [snd rt]\<rparr>) ts) = map plain_turn ts"
    by (simp add: as_plain_turn_def)
  show "normalize (JArr (map as_plain_turn (map (\<lambda>rt. \<lparr>role = fst rt, parts = [snd rt]\<rparr>) ts)))
       = Inr (map (\<lambda>rt. \<lparr>role = fst rt, parts = [snd rt]\<rparr>) ts)"
    by (subst m) (rule n)
  from a have "\<forall>c\<in>set (map (\<lambda>rt. \<lparr>role = fst rt, parts = [snd rt]\<rparr>) ts).
      role c = str ''user'' \<or> role c = str ''model''"
    by auto
  then have "normalize (JArr (map content_value (map (\<lambda>rt. \<lparr>role = fst rt, parts = [snd rt]\<rparr>) ts)))
      = Inr []"
    by (rule normalize_contents)
  with n show "normalize_twice (JArr (map plain_turn ts)) = Inr []"
    by (simp add: normalize_twice_def)
qed


theorem normalize_plain_turns_witness:
  "normalize (JArr [plain_turn (str ''user'', str ''hi''), plain_turn (str ''model'', str ''yo'')])
     = Inr [\<lparr>role = str ''user'', parts = [str ''hi'']\<rparr>,
            \<lparr>role = str ''model'', parts = [str ''yo'']\<rparr>]
   \<and> normalize (JArr [as_plain_turn \<lparr>role = str ''user'', parts = [str ''hi'']\<rparr>,
                      as_plain_turn \<lparr>role = str ''model'', parts = [str ''yo'']\<rparr>])
     = Inr [\<lparr>role = str ''user'', parts = [str ''hi'']\<rparr>,
            \<lparr>role = str ''model'', parts = [str ''yo'']\<rparr>]"
  using normalize_plain_turns [of "[(str ''user'', str ''hi''), (str ''model'', str ''yo'')]"]
  by (simp add: str_eq_Nil)

text \<open>
  C8 as stated fails: normalizing the one-turn history \<open>[{ role: 'user', text: 'hi' }]\<close>
  twice gives the empty history, and normalizing it once gives one entry.
\<close>

theorem normalize_twice_counterexample:
  "normalize (JArr [plain_turn (str ''user'', str ''hi'')])
     = Inr [\<lparr>role = str ''user'', parts = [str ''hi'']\<rparr>]
   \<and> normalize_twice (JArr [plain_turn (str ''user'', str ''hi'')]) = Inr []
   \<and> normalize_twice (JArr [plain_turn (str ''user'', str ''hi'')])
       \<noteq> normalize (JArr [plain_turn (str ''user'', str ''hi'')])"
proof -
  have once: "normalize (JArr [plain_turn (str ''user'', str ''hi'')])
     = Inr [\<lparr>role = str ''user'', parts = [str ''hi'']\<rparr>]"
    using normalize_plain [of "[(str ''user'', str ''hi'')]"] by (simp add: str_eq_Nil)
  have "normalize (JArr (map content_value [\<lparr>role = str ''user'', parts = [str ''hi'']\<rparr>])) = Inr []"
    by (rule normalize_contents) simp
  with once have twice: "normalize_twice (JArr [plain_turn (str ''user'', str ''hi'')]) = Inr []"
    by (simp add: normalize_twice_def)
  from once twice show ?thesis by simp
qed

section \<open>MIME type of a staged file\<close>

lemma split_not_Nil: "split sep s \<noteq> []"
  by (induction s) (auto split: list.splits)

lemma split_no_sep: "sep \<notin> set s \<Longrightarrow> split sep s = [s]"
  by (induction s) auto

lemma split_append: "split sep (a @ sep # b) = split sep a @ split sep b"
proof (induction a)
  case Nil
  show ?case by simp
next
  case (Cons c cs)
  obtain q qs where q: "split sep cs = q # qs"
    using split_not_Nil [of sep cs] by (cases "split sep cs") auto
  with Cons show ?case by simp
qed

lemma last_split: "sep \<notin> set e \<Longrightarrow> last (split sep (stem @ sep # e)) = e"
  by (simp add: split_append split_no_sep)

lemma dot: "str ''.'' = [0x2E]"
  by (simp add: str_def)

lemma getMimeType_table:
  "getMimeType filePath = spec_mime (toLowerCase (last (split 0x2E filePath)))"
  by (simp add: getMimeType_def spec_mime_def Let_def str_def)

lemma lower_slash: "0x2F \<in> set p \<Longrightarrow> 0x2F \<in> set (toLowerCase p)"
proof -
  assume "0x2F \<in> set p"
  moreover have "lower_unit 0x2F = 0x2F" by (simp add: lower_unit_def)
  ultimately show ?thesis unfolding toLowerCase_def by (metis image_eqI list.set_map)
qed

lemma spec_mime_slash: "0x2F \<in> set ext \<Longrightarrow> spec_mime ext = str ''application/octet-stream''"
  by (auto simp add: spec_mime_def str_def)

text \<open>
  C6. The MIME type sent upstream is read off the extension of the path, the text after
  its last dot, in lower case: \<open>pdf\<close> gives \<open>application/pdf\<close>; \<open>mp3\<close>, \<open>wav\<close> and
  \<open>ogg\<close> give \<open>audio/\<close> and the extension; \<open>m4a\<close> gives \<open>audio/mp4\<close>; anything else gives
  \<open>application/octet-stream\<close>, as does a path with a directory and no dot at all. For
  the path under which an upload is stored, the extension is that of the original name
  when it has one.
\<close>

theorem getMimeType_by_extension:
  "(0x2E \<notin> set e \<longrightarrow> getMimeType (stem @ str ''.'' @ e) = spec_mime (toLowerCase e))
   \<and> (0x2E \<notin> set p \<and> 0x2F \<in> set p \<longrightarrow> getMimeType p = str ''application/octet-stream'')
   \<and> (0x2E \<notin> set e \<and> originalname f = base @ str ''.'' @ e
        \<and> upload_single uploadDir now rnd (Some (f, bytes)) w = (Inr (Some u), w')
      \<longrightarrow> getMimeType (path u) = spec_mime (toLowerCase e))"
proof (intro conjI impI)
  assume "0x2E \<notin> set e"
  then show "getMimeType (stem @ str ''.'' @ e) = spec_mime (toLowerCase e)"
    by (simp add: getMimeType_table dot last_split)
next
  assume "0x2E \<notin> set p \<and> 0x2F \<in> set p"
  then show "getMimeType p = str ''application/octet-stream''"
    by (simp add: getMimeType_table split_no_sep lower_slash spec_mime_slash)
next
  assume a: "0x2E \<notin> set e \<and> originalname f = base @ str ''.'' @ e
        \<and> upload_single uploadDir now rnd (Some (f, bytes)) w = (Inr (Some u), w')"
  then have "path u = uploadDir @ str ''/'' @ filename now rnd f"
    by (auto simp add: upload_single_def Let_def file_info.extend_def split: if_splits sum.splits)
  with a have p: "path u = (uploadDir @ str ''/'' @ fieldname f @ str ''-'' @ decimal now @ str ''-''
      @ decimal rnd @ str ''-'' @ base) @ 0x2E # e"
    by (simp add: filename_def dot del: decimal.simps)
  from a have ne: "0x2E \<notin> set e" by simp
  have "last (split 0x2E (path u)) = e"
    unfolding p by (rule last_split [OF ne])
  then show "getMimeType (path u) = spec_mime (toLowerCase e)"
    by (simp only: getMimeType_table)
qed

theorem getMimeType_by_extension_witness:
  "getMimeType (str ''/srv/uploads/file-1-2-Song.MP3'') = str ''audio/mp3''
   \<and> getMimeType (str ''/srv/uploads/file-1-2-notes.Txt'') = str ''application/octet-stream''
   \<and> getMimeType (str ''/srv/uploads/file-1-2-memo.m4a'') = str ''audio/mp4''
   \<and> getMimeType (str ''/srv/uploads/file-1-2-README'') = str ''application/octet-stream''"
  using getMimeType_by_extension [of "str ''MP3''" "str ''/srv/uploads/file-1-2-Song''"
      "str ''/srv/uploads/file-1-2-README''"]
    getMimeType_by_extension [of "str ''Txt''" "str ''/srv/uploads/file-1-2-notes''"]
    getMimeType_by_extension [of "str ''m4a''" "str ''/srv/uploads/file-1-2-memo''"]
  by (simp add: spec_mime_def toLowerCase_def lower_unit_def str_def)

section \<open>Accepted uploads\<close>

lemma fileFilter_valid:
  "fileFilter f =
     (if startsWith (mimetype f) (str ''audio/'') \<or> startsWith (mimetype f) (str ''application/pdf'')
      then Inr True
      else Inl (Error (str ''File type not supported. Only audio and PDF files are allowed.'')))"
  by (simp add: fileFilter_def allowedTypes_def)

text \<open>
  C4, as the code has it. The filter accepts a file exactly when its declared MIME type
  starts with \<open>audio/\<close> or starts with \<open>application/pdf\<close>: both entries of
  \<open>allowedTypes\<close> are tested as prefixes. Any other type is refused with the error
  \<open>File type not supported. Only audio and PDF files are allowed.\<close>, and the upload then
  fails with the files as they were, nothing written.
\<close>

theorem fileFilter_accepts_prefixes:
  "(fileFilter f = Inr True \<longleftrightarrow>
      startsWith (mimetype f) (str ''audio/'') \<or> startsWith (mimetype f) (str ''application/pdf''))
   \<and> (\<not> startsWith (mimetype f) (str ''audio/'')
        \<and> \<not> startsWith (mimetype f) (str ''application/pdf'')
      \<longrightarrow> fileFilter f
            = Inl (Error (str ''File type not supported. Only audio and PDF files are allowed.''))
          \<and> (\<exists>e. upload_single uploadDir now rnd (Some (f, bytes)) w = (Inl e, w))
          \<and> (fieldname f = str ''file'' \<longrightarrow>
                upload_single uploadDir now rnd (Some (f, bytes)) w
                  = (Inl (Error (str
                      ''File type not supported. Only audio and PDF files are allowed.'')), w)))"
  by (simp add: fileFilter_valid upload_single_def)

theorem fileFilter_accepts_prefixes_witness:
  "fileFilter \<lparr>fieldname = str ''file'', originalname = str ''notes.txt'',
               mimetype = str ''text/plain''\<rparr>
     = Inl (Error (str ''File type not supported. Only audio and PDF files are allowed.''))
   \<and> upload_single (str ''/srv/uploads'') 1 2
        (Some (\<lparr>fieldname = str ''file'', originalname = str ''notes.txt'',
                 mimetype = str ''text/plain''\<rparr>, [0x68, 0x69]))
        \<lparr>files = Map.empty, trace = []\<rparr>
     = (Inl (Error (str ''File type not supported. Only audio and PDF files are allowed.'')),
        \<lparr>files = Map.empty, trace = []\<rparr>)"
  using fileFilter_accepts_prefixes
    [of "\<lparr>fieldname = str ''file'', originalname = str ''notes.txt'',
          mimetype = str ''text/plain''\<rparr>" "str ''/srv/uploads''" 1 2 "[0x68, 0x69]"
        "\<lparr>files = Map.empty, trace = []\<rparr>"]
  by (simp add: startsWith_def str_def)

text \<open>
  C4 as stated fails: the declared type \<open>application/pdfx\<close> neither starts with \<open>audio/\<close>
  nor equals \<open>application/pdf\<close>, and the filter accepts it.
\<close>

theorem fileFilter_exact_pdf_counterexample:
  "fileFilter \<lparr>fieldname = str ''file'', originalname = str ''a.pdf'',
               mimetype = str ''application/pdfx''\<rparr> = Inr True
   \<and> \<not> startsWith (str ''application/pdfx'') (str ''audio/'')
   \<and> str ''application/pdfx'' \<noteq> str ''application/pdf''"
  by (simp add: fileFilter_valid startsWith_def str_def)

section \<open>The handler on a request with an attachment\<close>

text \<open>
  A history field that is not an array, such as the JSON text a multipart form carries,
  gives the empty history.
\<close>

lemma normalize_string: "normalize (JStr s) = Inr []"
  by (simp add: normalize_def)

text \<open>
  The runs of the \<open>try\<close> block on a request with an attachment, by the step that fails.
\<close>

lemma chat_try_normalize_fails:
  assumes "req_file req = Some u"
    and "get_prop (body req) (str ''history'') = Inr hist"
    and "get_prop (body req) (str ''message'') = Inr msg"
    and "normalize hist = Inl e"
  shows "chat_try en req w = (Inl e, w)"
  using assms by (simp add: chat_try_def)

lemma chat_try_startChat_fails:
  assumes "req_file req = Some u"
    and "get_prop (body req) (str ''history'') = Inr hist"
    and "get_prop (body req) (str ''message'') = Inr msg"
    and "normalize hist = Inr h"
    and "startChat en (config_of h) = Some e"
  shows "chat_try en req w = (Inl e, emit (StartChat (config_of h)) w)"
  using assms by (simp add: chat_try_def config_of_def Let_def)

lemma chat_try_read_fails:
  assumes "req_file req = Some u"
    and "get_prop (body req) (str ''history'') = Inr hist"
    and "get_prop (body req) (str ''message'') = Inr msg"
    and "normalize hist = Inr h"
    and "startChat en (config_of h) = None" and "files w (path u) = None"
  shows "chat_try en req w
    = (Inl (SystemError (str ''ENOENT'')), emit (StartChat (config_of h)) w)"
  using assms
  by (simp add: chat_try_def config_of_def Let_def file_parts_def fileToBase64_def emit_def)

lemma chat_try_sendMessage_fails:
  assumes "req_file req = Some u"
    and "get_prop (body req) (str ''history'') = Inr hist"
    and "get_prop (body req) (str ''message'') = Inr msg"
    and "normalize hist = Inr h"
    and "startChat en (config_of h) = None" and "files w (path u) = Some bytes"
    and "sendMessage en (config_of h) (spec_parts en u bytes msg) = Inl e"
  shows "chat_try en req w
    = (Inl e, emit (SendMessage (spec_parts en u bytes msg))
                (emit (StartChat (config_of h)) w))"
  using assms
  by (cases "truthy msg"; cases "h = []")
    (simp_all add: chat_try_def config_of_def Let_def file_parts_def fileToBase64_def emit_def
      spec_parts_def)

lemma chat_try_succeeds:
  assumes "req_file req = Some u"
    and "get_prop (body req) (str ''history'') = Inr hist"
    and "get_prop (body req) (str ''message'') = Inr msg"
    and "normalize hist = Inr h"
    and "startChat en (config_of h) = None" and "files w (path u) = Some bytes"
    and "sendMessage en (config_of h) (spec_parts en u bytes msg) = Inr reply"
  shows "chat_try en req w
    = (Inr (), emit (Respond 200 (Message_body reply))
         (unlink_staged (Some u)
           (emit (SendMessage (spec_parts en u bytes msg))
             (emit (StartChat (config_of h)) w))))"
  using assms
  by (cases "truthy msg"; cases "h = []")
    (simp_all add: chat_try_def config_of_def Let_def file_parts_def fileToBase64_def emit_def
      spec_parts_def)

lemma chat_handler_parsed:
  assumes f: "req_file req = Some u"
    and bh: "get_prop (body req) (str ''history'') = Inr hist"
    and bm: "get_prop (body req) (str ''message'') = Inr msg"
  shows "\<exists>evs st b.
     chat_handler en req w
       = emit (Respond st b) (unlink_staged (Some u) (w\<lparr>trace := trace w @ evs\<rparr>))
     \<and> (evs = [] \<or> (\<exists>h. normalize hist = Inr h \<and>
          (evs = [StartChat (config_of h)]
           \<or> (\<exists>bytes. files w (path u) = Some bytes \<and> startChat en (config_of h) = None \<and>
                 evs = [StartChat (config_of h),
                        SendMessage (spec_parts en u bytes msg)]))))"
proof (cases "normalize hist")
  case (Inl e)
  with f bh bm have "chat_handler en req w
      = emit (Respond 500 (Failure_body (str ''Failed to process chat message'') e))
          (unlink_staged (Some u) (w\<lparr>trace := trace w @ []\<rparr>))"
    by (simp add: chat_handler_def chat_try_normalize_fails)
  then show ?thesis by blast
next
  case (Inr h)
  note nh = this
  show ?thesis
  proof (cases "startChat en (config_of h)")
    case (Some e)
    with f bh bm nh have "chat_handler en req w
        = emit (Respond 500 (Failure_body (str ''Failed to process chat message'') e))
            (unlink_staged (Some u) (w\<lparr>trace := trace w @ [StartChat (config_of h)]\<rparr>))"
      by (simp add: chat_handler_def chat_try_startChat_fails emit_def)
    with nh show ?thesis by blast
  next
    case None
    note started = this
    show ?thesis
    proof (cases "files w (path u)")
      case None
      with f bh bm nh started have "chat_handler en req w
          = emit (Respond 500 (Failure_body (str ''Failed to process chat message'')
                (SystemError (str ''ENOENT''))))
              (unlink_staged (Some u) (w\<lparr>trace := trace w @ [StartChat (config_of h)]\<rparr>))"
        by (simp add: chat_handler_def chat_try_read_fails emit_def)
      with nh show ?thesis by blast
    next
      case (Some bytes)
      note readable = this
      show ?thesis
      proof (cases "sendMessage en (config_of h) (spec_parts en u bytes msg)")
        case (Inl e)
        with f bh bm nh started readable have "chat_handler en req w
            = emit (Respond 500 (Failure_body (str ''Failed to process chat message'') e))
                (unlink_staged (Some u)
                  (w\<lparr>trace := trace w @ [StartChat (config_of h),
                      SendMessage (spec_parts en u bytes msg)]\<rparr>))"
          by (simp add: chat_handler_def chat_try_sendMessage_fails emit_def)
        with nh started readable show ?thesis by blast
      next
        case (Inr reply)
        with f bh bm nh started readable have "chat_handler en req w
            = emit (Respond 200 (Message_body reply))
                (unlink_staged (Some u)
                  (w\<lparr>trace := trace w @ [StartChat (config_of h),
                      SendMessage (spec_parts en u bytes msg)]\<rparr>))"
          by (simp add: chat_handler_def chat_try_succeeds emit_def)
        with nh started readable show ?thesis by blast
      qed
    qed
  qed
qed

text \<open>
  Every run of the handler on a request with an attachment: the upstream events \<open>evs\<close>,
  the cleanup, the response.
\<close>

lemma chat_handler_with_file:
  assumes f: "req_file req = Some u"
  shows "\<exists>evs st b.
     chat_handler en req w
       = emit (Respond st b) (unlink_staged (Some u) (w\<lparr>trace := trace w @ evs\<rparr>))
     \<and> (evs = [] \<or> (\<exists>hist msg h. get_prop (body req) (str ''history'') = Inr hist
          \<and> get_prop (body req) (str ''message'') = Inr msg \<and> normalize hist = Inr h \<and>
          (evs = [StartChat (config_of h)]
           \<or> (\<exists>bytes. files w (path u) = Some bytes \<and> startChat en (config_of h) = None \<and>
                 evs = [StartChat (config_of h),
                        SendMessage (spec_parts en u bytes msg)]))))"
proof (cases "get_prop (body req) (str ''history'')")
  case (Inl e)
  with f have "chat_handler en req w
      = emit (Respond 500 (Failure_body (str ''Failed to process chat message'') e))
          (unlink_staged (Some u) (w\<lparr>trace := trace w @ []\<rparr>))"
    by (simp add: chat_handler_def chat_try_unparsed)
  then show ?thesis by blast
next
  case (Inr hist)
  then obtain msg where bm: "get_prop (body req) (str ''message'') = Inr msg"
    using get_prop_other by blast
  from chat_handler_parsed [OF f Inr bm, of en w] Inr bm show ?thesis
    by blast
qed

lemma unlink_staged_files: "files (unlink_staged (Some u) w) = (files w)(path u := None)"
  by (auto simp add: unlink_staged_def emit_def)

lemma unlink_staged_trace:
  "trace (unlink_staged (Some u) w)
     = trace w @ (if files w (path u) \<noteq> None then [Unlink (path u)] else [])"
  by (simp add: unlink_staged_def emit_def)

text \<open>
  C2. When the request carries an attachment, the handler ends with the staged file
  absent from the files and every other file as it was, whatever the outcome. Its trace
  ends with its one response, and when the staged file existed its unlink comes before
  that response.
\<close>

theorem staged_file_removed:
  "req_file req = Some u \<longrightarrow>
     files (chat_handler en req w) = (files w)(path u := None)
     \<and> (\<exists>evs st b. trace (chat_handler en req w) = trace w @ evs @ [Respond st b]
           \<and> (\<forall>e\<in>set evs. \<forall>s c. e \<noteq> Respond s c)
           \<and> (files w (path u) \<noteq> None \<longrightarrow> Unlink (path u) \<in> set evs))"
proof
  assume f: "req_file req = Some u"
  from chat_handler_with_file [OF f, of en w] obtain evs st b
    where h: "chat_handler en req w
        = emit (Respond st b) (unlink_staged (Some u) (w\<lparr>trace := trace w @ evs\<rparr>))"
      and evs: "evs = [] \<or> (\<exists>hist msg h. get_prop (body req) (str ''history'') = Inr hist
          \<and> get_prop (body req) (str ''message'') = Inr msg \<and> normalize hist = Inr h \<and>
          (evs = [StartChat (config_of h)]
           \<or> (\<exists>bytes. files w (path u) = Some bytes \<and> startChat en (config_of h) = None \<and>
                 evs = [StartChat (config_of h),
                        SendMessage (spec_parts en u bytes msg)])))"
    by blast
  let ?un = "if files w (path u) \<noteq> None then [Unlink (path u)] else []"
  from h have fl: "files (chat_handler en req w) = (files w)(path u := None)"
    by (simp add: emit_def unlink_staged_files)
  from h have tr: "trace (chat_handler en req w) = trace w @ (evs @ ?un) @ [Respond st b]"
    by (simp add: emit_def unlink_staged_trace)
  from evs have nr: "\<forall>e\<in>set (evs @ ?un). \<forall>s c. e \<noteq> Respond s c"
    by auto
  have "files w (path u) \<noteq> None \<longrightarrow> Unlink (path u) \<in> set (evs @ ?un)"
    by simp
  with fl tr nr show "files (chat_handler en req w) = (files w)(path u := None)
     \<and> (\<exists>evs st b. trace (chat_handler en req w) = trace w @ evs @ [Respond st b]
           \<and> (\<forall>e\<in>set evs. \<forall>s c. e \<noteq> Respond s c)
           \<and> (files w (path u) \<noteq> None \<longrightarrow> Unlink (path u) \<in> set evs))"
    by blast
qed

theorem staged_file_removed_witness:
  "files (chat_handler
      \<lparr>startChat = (\<lambda>c. None), sendMessage = (\<lambda>c ps. Inl (Error (str ''quota''))),
       base64 = (\<lambda>b. str ''aGk='')\<rparr>
      \<lparr>body = JBare [(str ''message'', JStr (str ''hi''))],
       req_file = Some \<lparr>fieldname = str ''file'', originalname = str ''a.pdf'',
                        mimetype = str ''application/pdf'', path = str ''/up/file-1-2-a.pdf''\<rparr>\<rparr>
      \<lparr>files = [str ''/up/file-1-2-a.pdf'' \<mapsto> [0x68, 0x69]], trace = []\<rparr>)
     = Map.empty"
  using staged_file_removed
    [of "\<lparr>body = JBare [(str ''message'', JStr (str ''hi''))],
          req_file = Some \<lparr>fieldname = str ''file'', originalname = str ''a.pdf'',
                           mimetype = str ''application/pdf'', path = str ''/up/file-1-2-a.pdf''\<rparr>\<rparr>"
        "\<lparr>fieldname = str ''file'', originalname = str ''a.pdf'',
          mimetype = str ''application/pdf'', path = str ''/up/file-1-2-a.pdf''\<rparr>"
        "\<lparr>startChat = (\<lambda>c. None), sendMessage = (\<lambda>c ps. Inl (Error (str ''quota''))),
          base64 = (\<lambda>b. str ''aGk='')\<rparr>"
        "\<lparr>files = [str ''/up/file-1-2-a.pdf'' \<mapsto> [0x68, 0x69]], trace = []\<rparr>"]
  by simp

text \<open>
  C5. When the request carries an attachment, every list of parts the handler sends
  upstream is the inline data of the file (its base64 text and the MIME type of its
  path) followed by one text part: the message of the body when it is truthy, the
  default prompt otherwise. It is sent whenever the body can be read (as it always can
  when the multipart parser has stored a file), the history normalizes, the chat starts
  and the file can be read.
\<close>

theorem parts_with_attachment:
  "req_file req = Some u \<longrightarrow>
     (\<forall>ps. SendMessage ps \<in> set (trace (chat_handler en req w)) \<and> SendMessage ps \<notin> set (trace w)
        \<longrightarrow> (\<exists>bytes msg. get_prop (body req) (str ''message'') = Inr msg
               \<and> files w (path u) = Some bytes
               \<and> ps = [InlineData (base64 en bytes) (getMimeType (path u)),
                       Text (if truthy msg then msg
                             else JStr (str ''Please analyze this file and provide insights.''))]))
     \<and> (\<forall>hist msg h bytes. get_prop (body req) (str ''history'') = Inr hist
           \<and> get_prop (body req) (str ''message'') = Inr msg
           \<and> normalize hist = Inr h \<and> startChat en (config_of h) = None
           \<and> files w (path u) = Some bytes
        \<longrightarrow> SendMessage [InlineData (base64 en bytes) (getMimeType (path u)),
                          Text (if truthy msg then msg
                                else JStr (str
                                  ''Please analyze this file and provide insights.''))]
              \<in> set (trace (chat_handler en req w)))"
proof (intro impI conjI allI)
  fix ps
  assume f: "req_file req = Some u"
  assume ps: "SendMessage ps \<in> set (trace (chat_handler en req w)) \<and> SendMessage ps \<notin> set (trace w)"
  from chat_handler_with_file [OF f, of en w] obtain evs st b
    where h: "chat_handler en req w
        = emit (Respond st b) (unlink_staged (Some u) (w\<lparr>trace := trace w @ evs\<rparr>))"
      and evs: "evs = [] \<or> (\<exists>hist msg h. get_prop (body req) (str ''history'') = Inr hist
          \<and> get_prop (body req) (str ''message'') = Inr msg \<and> normalize hist = Inr h \<and>
          (evs = [StartChat (config_of h)]
           \<or> (\<exists>bytes. files w (path u) = Some bytes \<and> startChat en (config_of h) = None \<and>
                 evs = [StartChat (config_of h),
                        SendMessage (spec_parts en u bytes msg)])))"
    by blast
  from h have "trace (chat_handler en req w)
      = trace w @ evs @ (if files w (path u) \<noteq> None then [Unlink (path u)] else [])
          @ [Respond st b]"
    by (simp add: emit_def unlink_staged_trace)
  with ps have "SendMessage ps \<in> set evs"
    by (auto split: if_splits)
  with evs obtain bytes msg where "get_prop (body req) (str ''message'') = Inr msg"
      and "files w (path u) = Some bytes"
      and "ps = spec_parts en u bytes msg"
    by auto
  then show "\<exists>bytes msg. get_prop (body req) (str ''message'') = Inr msg
               \<and> files w (path u) = Some bytes
               \<and> ps = [InlineData (base64 en bytes) (getMimeType (path u)),
                       Text (if truthy msg then msg
                             else JStr (str ''Please analyze this file and provide insights.''))]"
    by (simp add: spec_parts_def)
next
  fix hist msg h bytes
  assume f: "req_file req = Some u"
  assume a: "get_prop (body req) (str ''history'') = Inr hist
           \<and> get_prop (body req) (str ''message'') = Inr msg
           \<and> normalize hist = Inr h \<and> startChat en (config_of h) = None
           \<and> files w (path u) = Some bytes"
  from a have bh: "get_prop (body req) (str ''history'') = Inr hist"
    and bm: "get_prop (body req) (str ''message'') = Inr msg"
    and nh: "normalize hist = Inr h" and st: "startChat en (config_of h) = None"
    and fl: "files w (path u) = Some bytes"
    by simp_all
  have "SendMessage (spec_parts en u bytes msg) \<in> set (trace (chat_handler en req w))"
  proof (cases "sendMessage en (config_of h) (spec_parts en u bytes msg)")
    case (Inl e)
    have "chat_try en req w
        = (Inl e, emit (SendMessage (spec_parts en u bytes msg))
                    (emit (StartChat (config_of h)) w))"
      by (rule chat_try_sendMessage_fails [OF f bh bm nh st fl Inl])
    then show ?thesis
      by (simp add: chat_handler_def emit_def f unlink_staged_trace)
  next
    case (Inr reply)
    have "chat_try en req w
        = (Inr (), emit (Respond 200 (Message_body reply))
         (unlink_staged (Some u)
           (emit (SendMessage (spec_parts en u bytes msg))
             (emit (StartChat (config_of h)) w))))"
      by (rule chat_try_succeeds [OF f bh bm nh st fl Inr])
    then show ?thesis
      by (simp add: chat_handler_def emit_def unlink_staged_trace)
  qed
  then show "SendMessage [InlineData (base64 en bytes) (getMimeType (path u)),
                          Text (if truthy msg then msg
                                else JStr (str
                                  ''Please analyze this file and provide insights.''))]
              \<in> set (trace (chat_handler en req w))"
    by (simp add: spec_parts_def)
qed

theorem parts_with_attachment_witness:
  "SendMessage [InlineData (str ''aGk='') (str ''application/pdf''),
                Text (JStr (str ''Please analyze this file and provide insights.''))]
     \<in> set (trace (chat_handler
      \<lparr>startChat = (\<lambda>c. None), sendMessage = (\<lambda>c ps. Inr (str ''ok'')),
       base64 = (\<lambda>b. str ''aGk='')\<rparr>
      \<lparr>body = JBare [(str ''history'', JStr (str ''[]''))],
       req_file = Some \<lparr>fieldname = str ''file'', originalname = str ''a.pdf'',
                        mimetype = str ''application/pdf'', path = str ''/up/file-1-2-a.pdf''\<rparr>\<rparr>
      \<lparr>files = [str ''/up/file-1-2-a.pdf'' \<mapsto> [0x68, 0x69]], trace = []\<rparr>))"
proof -
  let ?u = "\<lparr>fieldname = str ''file'', originalname = str ''a.pdf'',
          mimetype = str ''application/pdf'', path = str ''/up/file-1-2-a.pdf''\<rparr>"
  let ?req = "\<lparr>body = JBare [(str ''history'', JStr (str ''[]''))], req_file = Some ?u\<rparr>"
  let ?en = "\<lparr>startChat = (\<lambda>c. None), sendMessage = (\<lambda>c ps. Inr (str ''ok'')),
       base64 = (\<lambda>b. str ''aGk='')\<rparr>"
  let ?w = "\<lparr>files = [str ''/up/file-1-2-a.pdf'' \<mapsto> [0x68, 0x69]], trace = []\<rparr>"
  have m: "getMimeType (str ''/up/file-1-2-a.pdf'') = str ''application/pdf''"
    by (simp add: getMimeType_def toLowerCase_def lower_unit_def str_def)
  have "req_file ?req = Some ?u
      \<and> get_prop (body ?req) (str ''history'') = Inr (JStr (str ''[]''))
      \<and> get_prop (body ?req) (str ''message'') = Inr JUndefined
      \<and> normalize (JStr (str ''[]'')) = Inr [] \<and> startChat ?en (config_of []) = None
      \<and> files ?w (path ?u) = Some [0x68, 0x69]"
    by (simp add: normalize_def str_def)
  with parts_with_attachment [of ?req ?u ?en ?w]
  have "SendMessage [InlineData (base64 ?en [0x68, 0x69]) (getMimeType (path ?u)),
                          Text (if truthy JUndefined then JUndefined
                                else JStr (str
                                  ''Please analyze this file and provide insights.''))]
              \<in> set (trace (chat_handler ?en ?req ?w))"
    by blast
  then show ?thesis by (simp add: m)
qed

end
